theory Spec2Isabelle
  imports Complex_Main
begin

section \<open>Python values used by the dashboard\<close>

text \<open>
  A Python \<open>dict\<close> keeps its keys in insertion order and holds each key once; it is
  modelled as an association list read with \<open>map_of\<close>.  Numbers (the attribute scores,
  the weights read from the CSV tables, the ratings computed from them, timestamps) are
  exact rationals: the rounding error of binary floating point is outside this model, and
  every concrete input below uses values on which float arithmetic is exact.
\<close>

type_synonym ('k, 'v) dict = "('k \<times> 'v) list"

definition dict_keys :: "('k, 'v) dict \<Rightarrow> 'k list" where
  "dict_keys d = map fst d"

definition dict_get :: "('k, 'v) dict \<Rightarrow> 'k \<Rightarrow> 'v \<Rightarrow> 'v" where
  \<comment> \<open>\<open>d.get(k, default)\<close>\<close>
  "dict_get d k dflt = (case map_of d k of None \<Rightarrow> dflt | Some v \<Rightarrow> v)"

definition py_round :: "rat \<Rightarrow> int" where
  \<comment> \<open>Python 3 \<open>round(x)\<close>: to the nearest integer, a tie to the even neighbour\<close>
  "py_round x =
     (let f = \<lfloor>x\<rfloor>; d = x - of_int f
      in if d < 1 / 2 then f
         else if 1 / 2 < d then f + 1
         else if even f then f else f + 1)"

section \<open>The alternate-position evaluator (\<open>calculate_best_alt_ovr\<close>)\<close>

text \<open>
  \<open>weightings_dict\<close> maps a position to its attribute weights, \<open>familiarity_dict\<close> maps a
  pair (primary position, assigned position) to a penalty.  Both are module globals of the
  source, loaded once; here they are the parameters \<open>wd\<close> and \<open>fd\<close>.  A player's primary,
  secondary and tertiary positions are strings or \<open>None\<close> (the source pads the position
  list with \<open>None\<close>).
\<close>

type_synonym weights = "(string, rat) dict"
type_synonym weightings = "(string, weights) dict"
type_synonym familiarity = "(string option \<times> string, rat) dict"
type_synonym player_stats = "(string, rat) dict"

record evaluation =
  best_alt_position :: "string option"
  best_alt_ovr :: int
  delta_to_overall :: int

definition weighted_sum :: "player_stats \<Rightarrow> weights \<Rightarrow> rat" where
  "weighted_sum stats ws =
     sum_list (map (\<lambda>attr. dict_get stats attr 0 * dict_get ws attr 0) (dict_keys ws))"

definition base_ovr :: "weightings \<Rightarrow> player_stats \<Rightarrow> string \<Rightarrow> rat" where
  \<comment> \<open>\<open>weightings_dict[pos]\<close> cannot raise: \<open>pos\<close> is always one of the dict's own keys\<close>
  "base_ovr wd stats pos = weighted_sum stats (dict_get wd pos []) / 100"

definition penalty :: "familiarity \<Rightarrow> string option \<Rightarrow> string option \<Rightarrow> string option
    \<Rightarrow> string \<Rightarrow> rat" where
  "penalty fd primary secondary tertiary pos =
     (if Some pos = primary then 0
      else if Some pos = secondary \<or> Some pos = tertiary then - 1
      else dict_get fd (primary, pos) 0)"

definition alt_ovr :: "weightings \<Rightarrow> familiarity \<Rightarrow> player_stats \<Rightarrow> string option
    \<Rightarrow> string option \<Rightarrow> string option \<Rightarrow> string \<Rightarrow> rat" where
  "alt_ovr wd fd stats primary secondary tertiary pos =
     max 0 (base_ovr wd stats pos + penalty fd primary secondary tertiary pos)"

text \<open>
  One pass of the \<open>for pos in weightings_dict.keys()\<close> loop on the pair
  (\<open>best_alt_ovr\<close>, \<open>best_position\<close>), both \<open>None\<close> before the loop.
\<close>

definition loop_body :: "weightings \<Rightarrow> familiarity \<Rightarrow> player_stats \<Rightarrow> string option
    \<Rightarrow> string option \<Rightarrow> string option \<Rightarrow> string
    \<Rightarrow> rat option \<times> string option \<Rightarrow> rat option \<times> string option" where
  "loop_body wd fd stats primary secondary tertiary pos best =
     (let a = alt_ovr wd fd stats primary secondary tertiary pos
      in if Some pos \<noteq> primary
         then (case fst best of
                 None \<Rightarrow> (Some a, Some pos)
               | Some b \<Rightarrow> if b < a then (Some a, Some pos) else best)
         else best)"

definition best_alternative :: "weightings \<Rightarrow> familiarity \<Rightarrow> player_stats \<Rightarrow> string option
    \<Rightarrow> string option \<Rightarrow> string option \<Rightarrow> rat option \<times> string option" where
  "best_alternative wd fd stats primary secondary tertiary =
     fold (loop_body wd fd stats primary secondary tertiary) (dict_keys wd) (None, None)"

definition calculate_best_alt_ovr :: "weightings \<Rightarrow> familiarity \<Rightarrow> player_stats
    \<Rightarrow> string option \<Rightarrow> string option \<Rightarrow> string option \<Rightarrow> int \<Rightarrow> evaluation" where
  "calculate_best_alt_ovr wd fd stats primary secondary tertiary overall =
     (case best_alternative wd fd stats primary secondary tertiary of
        (None, best_position) \<Rightarrow>
          \<lparr>best_alt_position = primary, best_alt_ovr = overall, delta_to_overall = 0\<rparr>
      | (Some b, best_position) \<Rightarrow>
          if b \<le> of_int overall
          then \<lparr>best_alt_position = primary, best_alt_ovr = overall, delta_to_overall = 0\<rparr>
          else \<lparr>best_alt_position = best_position, best_alt_ovr = py_round b,
                delta_to_overall = py_round (b - of_int overall)\<rparr>)"

section \<open>The floor-price cache (\<open>get_floor_price\<close>)\<close>

text \<open>
  Values read from JSON (the cache file, the marketplace's replies).  \<open>JNull\<close> is Python's
  \<open>None\<close>, the absent price.
\<close>

datatype json = JNull | JBool bool | JNum rat | JStr string | JList "json list"
  | JDict "(string, json) dict"

datatype py_error = KeyError | TypeError | RequestError

text \<open>
  What one \<open>requests.get\<close> followed by \<open>response.json()\<close> can do: \<open>requests.get\<close> raises, or
  a response arrives with a status code and a body that decodes to a JSON value (\<open>None\<close>
  when \<open>response.json()\<close> raises on it).
\<close>

datatype http_outcome = RequestException | Response int "json option"

type_synonym cache_entry = "(string, json) dict"

text \<open>
  The module global \<open>floor_price_cache\<close>, the contents of \<open>floor_cache.json\<close> and the URLs
  requested so far.  The cache is loaded from the file with \<open>json.load\<close>: an entry is a JSON
  object that may lack either field and may hold any JSON value in it.  Writing the file is
  taken to succeed.
\<close>

record floor_state =
  floor_price_cache :: "string \<rightharpoonup> cache_entry"
  cache_file :: "string \<rightharpoonup> cache_entry"
  requests_sent :: "string list"

definition CACHE_EXPIRY_SECONDS :: rat where
  "CACHE_EXPIRY_SECONDS = 3600"

fun str_nat :: "nat \<Rightarrow> string" where
  "str_nat n =
     (if n < 10 then [''0123456789'' ! n]
      else str_nat (n div 10) @ [''0123456789'' ! (n mod 10)])"

declare str_nat.simps [simp del]

definition py_str :: "int \<Rightarrow> string" where
  \<comment> \<open>how an f-string renders an integer\<close>
  "py_str i = (if i < 0 then CHR ''-'' # str_nat (nat (- i)) else str_nat (nat i))"

definition generate_floor_key :: "(string \<Rightarrow> string) \<Rightarrow> int \<Rightarrow> int \<Rightarrow> string \<Rightarrow> string" where
  \<comment> \<open>\<open>digest\<close> stands for \<open>hashlib.md5(s.encode()).hexdigest()\<close>, a library function\<close>
  "generate_floor_key digest age ovr position =
     digest (py_str age @ ''-'' @ py_str ovr @ ''-'' @ position)"

definition floor_url :: "int \<Rightarrow> int \<Rightarrow> string \<Rightarrow> string" where
  "floor_url age ovr position =
     ''https://z519wdyajg.execute-api.us-east-1.amazonaws.com/prod/listings''
     @ ''?limit=1&type=PLAYER&sorts=listing.price&sortsOrders=ASC&status=AVAILABLE''
     @ ''&ageMin='' @ py_str age @ ''&ageMax='' @ py_str age
     @ ''&overallMin='' @ py_str ovr @ ''&overallMax='' @ py_str ovr
     @ ''&positions='' @ position @ ''&view=full''"

definition save_floor_cache :: "floor_state \<Rightarrow> floor_state" where
  "save_floor_cache st = st\<lparr>cache_file := floor_price_cache st\<rparr>"

definition store_price :: "string \<Rightarrow> json \<Rightarrow> rat \<Rightarrow> floor_state \<Rightarrow> floor_state" where
  \<comment> \<open>\<open>floor_price_cache[key] = {"price": price, "timestamp": now}; save_floor_cache()\<close>\<close>
  "store_price key price now st =
     save_floor_cache
       (st\<lparr>floor_price_cache :=
             (floor_price_cache st)(key \<mapsto> [(''price'', price), (''timestamp'', JNum now)])\<rparr>)"

definition py_number :: "json \<Rightarrow> rat option" where
  \<comment> \<open>the operands \<open>now - x\<close> accepts: numbers, and booleans (Python's bool is an int)\<close>
  "py_number v =
     (case v of JNum r \<Rightarrow> Some r | JBool b \<Rightarrow> Some (if b then 1 else 0) | _ \<Rightarrow> None)"

definition cache_hit :: "rat \<Rightarrow> cache_entry option \<Rightarrow> py_error + json option" where
  \<comment> \<open>\<open>if key in floor_price_cache: ...\<close>: \<open>Inr (Some price)\<close> is the early return,
      \<open>Inr None\<close> falls through to the remote lookup\<close>
  "cache_hit now c =
     (case c of
        None \<Rightarrow> Inr None
      | Some cached \<Rightarrow>
          (case py_number (dict_get cached ''timestamp'' (JNum 0)) of
             None \<Rightarrow> Inl TypeError
           | Some t \<Rightarrow>
               if now - t < CACHE_EXPIRY_SECONDS
               then (case map_of cached ''price'' of
                       None \<Rightarrow> Inl KeyError
                     | Some price \<Rightarrow> Inr (Some price))
               else Inr None))"

fun starts_with :: "string \<Rightarrow> string \<Rightarrow> bool" where
  "starts_with [] s = True"
| "starts_with (c # cs) [] = False"
| "starts_with (c # cs) (d # ds) = (c = d \<and> starts_with cs ds)"

fun str_contains :: "string \<Rightarrow> string \<Rightarrow> bool" where
  \<comment> \<open>\<open>sub in s\<close> on two strings\<close>
  "str_contains sub [] = (sub = [])"
| "str_contains sub (d # ds) = (starts_with sub (d # ds) \<or> str_contains sub ds)"

definition price_in :: "json \<Rightarrow> py_error + bool" where
  \<comment> \<open>\<open>"price" in x\<close>: a key of a dict, a substring of a string, an element of a list;
      a \<open>TypeError\<close> on anything else\<close>
  "price_in x =
     (case x of
        JDict d \<Rightarrow> Inr (''price'' \<in> set (dict_keys d))
      | JStr s \<Rightarrow> Inr (str_contains ''price'' s)
      | JList xs \<Rightarrow> Inr (JStr ''price'' \<in> set xs)
      | _ \<Rightarrow> Inl TypeError)"

definition price_of :: "json \<Rightarrow> py_error + json" where
  \<comment> \<open>\<open>x["price"]\<close>\<close>
  "price_of x =
     (case x of
        JDict d \<Rightarrow> (case map_of d ''price'' of None \<Rightarrow> Inl KeyError | Some v \<Rightarrow> Inr v)
      | _ \<Rightarrow> Inl TypeError)"

definition listed_price :: "http_outcome \<Rightarrow> json option" where
  \<comment> \<open>the \<open>try\<close> block up to \<open>price = data[0]["price"]\<close>: \<open>Some price\<close> when it gets
      there, \<open>None\<close> when a test fails or the bare \<open>except\<close> swallows an exception;
      \<open>data and isinstance(data, list)\<close> holds of the non-empty lists\<close>
  "listed_price out =
     (case out of
        RequestException \<Rightarrow> None
      | Response status_code body \<Rightarrow>
          if status_code = 200
          then (case body of
                  None \<Rightarrow> None
                | Some data \<Rightarrow>
                    (case data of
                       JList (x # xs) \<Rightarrow>
                         (case price_in x of
                            Inl e \<Rightarrow> None
                          | Inr False \<Rightarrow> None
                          | Inr True \<Rightarrow>
                              (case price_of x of Inl e \<Rightarrow> None | Inr price \<Rightarrow> Some price))
                     | _ \<Rightarrow> None))
          else None)"

definition get_floor_price :: "(string \<Rightarrow> string) \<Rightarrow> (string \<Rightarrow> http_outcome) \<Rightarrow> rat
    \<Rightarrow> floor_state \<Rightarrow> int option \<Rightarrow> int option \<Rightarrow> string option
    \<Rightarrow> (py_error + json) \<times> floor_state" where
  \<comment> \<open>\<open>remote url\<close> is what the marketplace does with this call's request, \<open>now\<close> is
      \<open>time.time()\<close>\<close>
  "get_floor_price digest remote now st age ovr position =
     (case (age, ovr, position) of
        (Some a, Some ov, Some p) \<Rightarrow>
          (let key = generate_floor_key digest a ov p
           in case cache_hit now (floor_price_cache st key) of
                Inl e \<Rightarrow> (Inl e, st)
              | Inr (Some price) \<Rightarrow> (Inr price, st)
              | Inr None \<Rightarrow>
                  (let url = floor_url a ov p;
                       st1 = st\<lparr>requests_sent := requests_sent st @ [url]\<rparr>
                   in case listed_price (remote url) of
                        Some price \<Rightarrow> (Inr price, store_price key price now st1)
                      | None \<Rightarrow> (Inr JNull, store_price key JNull now st1)))
      | _ \<Rightarrow> (Inr JNull, st))"

section \<open>The initial preload of pages\<close>

text \<open>
  A page request either raises (in \<open>requests.get\<close> or in \<open>response.json()\<close>) or answers
  with a status code and a list of records.  A record carries the identifier the next
  request is anchored at: \<open>listingResourceId\<close> in the marketplace page, \<open>id\<close> in the
  scouting page.
\<close>

datatype 'r page_outcome = PageException | PageResponse int "'r list"

record listing =
  listingResourceId :: int

record player =
  player_id :: int

definition load_listings :: "listing page_outcome \<Rightarrow> py_error + listing list" where
  "load_listings out =
     (case out of
        PageException \<Rightarrow> Inl RequestError
      | PageResponse status_code body \<Rightarrow> if status_code \<noteq> 200 then Inr [] else Inr body)"

definition fetch_scouting_list :: "player page_outcome \<Rightarrow> py_error + player list" where
  "fetch_scouting_list out =
     (case out of
        PageException \<Rightarrow> Inl RequestError
      | PageResponse status_code body \<Rightarrow> if status_code \<noteq> 200 then Inr [] else Inr body)"

text \<open>
  The \<open>for _ in range(n)\<close> loop of both pages.  \<open>remote i\<close> is the outcome of the
  \<open>i\<close>-th request, \<open>fetch\<close> is the page's fetch function, \<open>ident\<close> reads a record's
  identifier.  The state is the accumulated list, the cursor and the cursors of the requests
  made so far.  An exception leaves the loop at once; the list it was extending keeps what
  it holds.
\<close>

fun preload_loop :: "('r page_outcome \<Rightarrow> py_error + 'r list) \<Rightarrow> ('r \<Rightarrow> int)
    \<Rightarrow> (nat \<Rightarrow> 'r page_outcome) \<Rightarrow> nat \<Rightarrow> nat
    \<Rightarrow> 'r list \<times> int option \<times> int option list
    \<Rightarrow> py_error option \<times> 'r list \<times> int option \<times> int option list" where
  "preload_loop fetch ident remote 0 i s = (None, s)"
| "preload_loop fetch ident remote (Suc n) i (acc, last_id, asked) =
     (case fetch (remote i) of
        Inl e \<Rightarrow> (Some e, acc, last_id, asked @ [last_id])
      | Inr new_batch \<Rightarrow>
          if new_batch = [] then (None, acc, last_id, asked @ [last_id])
          else preload_loop fetch ident remote n (Suc i)
                 (acc @ new_batch, Some (ident (last new_batch)), asked @ [last_id]))"

record market_session =
  listings :: "listing list"
  last_id :: "int option"
  listing_requests :: "int option list"

record scouting_session =
  scouting_players :: "player list"
  scouting_last_id :: "int option"
  scouting_requests :: "int option list"

definition preload_listings :: "(nat \<Rightarrow> listing page_outcome) \<Rightarrow> market_session
    \<Rightarrow> py_error option \<times> market_session" where
  \<comment> \<open>the cursor is a local variable, stored in the session after the loop\<close>
  "preload_listings remote st =
     (if length (listings st) = 0
      then (case preload_loop load_listings listingResourceId remote 6 0
                   (listings st, None, listing_requests st) of
              (None, acc, cursor, asked) \<Rightarrow>
                (None, st\<lparr>listings := acc, last_id := cursor, listing_requests := asked\<rparr>)
            | (Some e, acc, cursor, asked) \<Rightarrow>
                (Some e, st\<lparr>listings := acc, listing_requests := asked\<rparr>))
      else (None, st))"

definition preload_scouting :: "(nat \<Rightarrow> player page_outcome) \<Rightarrow> scouting_session
    \<Rightarrow> py_error option \<times> scouting_session" where
  \<comment> \<open>the cursor is the session's own \<open>scouting_last_id\<close>, updated in every pass\<close>
  "preload_scouting remote st =
     (if length (scouting_players st) = 0
      then (case preload_loop fetch_scouting_list player_id remote 3 0
                   (scouting_players st, scouting_last_id st, scouting_requests st) of
              (err, acc, cursor, asked) \<Rightarrow>
                (err, st\<lparr>scouting_players := acc, scouting_last_id := cursor,
                          scouting_requests := asked\<rparr>))
      else (None, st))"

text \<open>
  The records a page request hands to the loop: the body of a response with status 200,
  nothing from any other response or from a request that raised.  \<open>fetched_pages remote n\<close>
  are the pages of the first \<open>n\<close> requests up to, and without, the first empty or failed
  one.
\<close>

definition page_records :: "'r page_outcome \<Rightarrow> 'r list" where
  "page_records out =
     (case out of PageException \<Rightarrow> [] | PageResponse code body \<Rightarrow> if code = 200 then body else [])"

definition fetched_pages :: "(nat \<Rightarrow> 'r page_outcome) \<Rightarrow> nat \<Rightarrow> 'r list list" where
  "fetched_pages remote n =
     takeWhile (\<lambda>page. page \<noteq> []) (map (\<lambda>i. page_records (remote i)) [0..<n])"

section \<open>Rounding\<close>

lemma floor_rat_numeral_div [simp]:
  "\<lfloor>numeral a / numeral b :: rat\<rfloor> = numeral a div numeral b"
  using floor_divide_of_int_eq [of "numeral a" "numeral b", where ?'a = rat] by simp

lemma py_round_ge_floor: "\<lfloor>x\<rfloor> \<le> py_round x"
  by (simp add: py_round_def Let_def)

lemma py_round_le_floor_Suc: "py_round x \<le> \<lfloor>x\<rfloor> + 1"
  by (simp add: py_round_def Let_def)

lemma py_round_lower: "of_int n \<le> x \<Longrightarrow> n \<le> py_round x"
  using py_round_ge_floor [of x] le_floor_iff [of n x] by linarith

lemma py_round_pos_iff: "0 < py_round x \<longleftrightarrow> 1 / 2 < x"
proof (cases "1 \<le> x")
  case True
  then have "1 \<le> \<lfloor>x\<rfloor>" by (simp add: le_floor_iff)
  with py_round_ge_floor [of x] have "0 < py_round x" by linarith
  moreover from True have "1 / 2 < x" by simp
  ultimately show ?thesis by simp
next
  case False
  show ?thesis
  proof (cases "0 \<le> x")
    case True
    with False have "\<lfloor>x\<rfloor> = 0" by (simp add: floor_eq_iff)
    then show ?thesis by (auto simp: py_round_def Let_def)
  next
    case neg: False
    then have "\<lfloor>x\<rfloor> < 0" by (simp add: floor_less_iff)
    with py_round_le_floor_Suc [of x] have "\<not> 0 < py_round x" by linarith
    moreover from neg have "\<not> 1 / 2 < x" by simp
    ultimately show ?thesis by simp
  qed
qed

lemma py_round_shift:
  "x - of_int \<lfloor>x\<rfloor> \<noteq> 1 / 2 \<or> even n \<Longrightarrow> py_round (x - of_int n) = py_round x - n"
  by (auto simp: py_round_def Let_def)

lemma py_round_shift_odd:
  "x - of_int \<lfloor>x\<rfloor> = 1 / 2 \<Longrightarrow> odd n \<Longrightarrow> \<bar>py_round (x - of_int n) - (py_round x - n)\<bar> = 1"
  by (auto simp: py_round_def Let_def)

section \<open>The position tracked by the loop\<close>

lemma fold_loop_body:
  fixes wd fd stats primary secondary tertiary
  defines "r \<equiv> alt_ovr wd fd stats primary secondary tertiary"
  defines "body \<equiv> loop_body wd fd stats primary secondary tertiary"
  shows "(\<forall>k\<in>set ks. Some k = primary) \<and> fold body ks (None, None) = (None, None)
     \<or> (\<exists>pre p post. ks = pre @ p # post \<and> Some p \<noteq> primary
         \<and> fold body ks (None, None) = (Some (r p), Some p)
         \<and> (\<forall>q\<in>set pre. Some q \<noteq> primary \<longrightarrow> r q < r p)
         \<and> (\<forall>q\<in>set post. Some q \<noteq> primary \<longrightarrow> r q \<le> r p))"
proof (induction ks rule: rev_induct)
  case Nil
  show ?case by simp
next
  case (snoc k ks)
  have bk: "body k s = (if Some k \<noteq> primary
       then (case fst s of None \<Rightarrow> (Some (r k), Some k)
             | Some b \<Rightarrow> if b < r k then (Some (r k), Some k) else s)
       else s)" for s
    unfolding body_def r_def by (simp add: loop_body_def Let_def)
  have step: "fold body (ks @ [k]) (None, None) = body k (fold body ks (None, None))"
    by simp
  from snoc.IH show ?case
  proof (elim disjE conjE exE)
    assume none: "\<forall>k\<in>set ks. Some k = primary" "fold body ks (None, None) = (None, None)"
    show ?thesis
    proof (cases "Some k = primary")
      case True
      with none show ?thesis by (simp add: bk)
    next
      case False
      with none have "fold body (ks @ [k]) (None, None) = (Some (r k), Some k)"
        by (simp add: bk)
      with False none(1) have "ks @ [k] = ks @ k # [] \<and> Some k \<noteq> primary
         \<and> fold body (ks @ [k]) (None, None) = (Some (r k), Some k)
         \<and> (\<forall>q\<in>set ks. Some q \<noteq> primary \<longrightarrow> r q < r k)
         \<and> (\<forall>q\<in>set []. Some q \<noteq> primary \<longrightarrow> r q \<le> r k)"
        by simp
      then show ?thesis by blast
    qed
  next
    fix pre p post
    assume dec: "ks = pre @ p # post" and cand: "Some p \<noteq> primary"
      and res: "fold body ks (None, None) = (Some (r p), Some p)"
      and before: "\<forall>q\<in>set pre. Some q \<noteq> primary \<longrightarrow> r q < r p"
      and after: "\<forall>q\<in>set post. Some q \<noteq> primary \<longrightarrow> r q \<le> r p"
    show ?thesis
    proof (cases "Some k \<noteq> primary \<and> r p < r k")
      case True
      with res have "fold body (ks @ [k]) (None, None) = (Some (r k), Some k)"
        by (simp add: bk)
      moreover have "\<forall>q\<in>set ks. Some q \<noteq> primary \<longrightarrow> r q < r k"
        using dec before after True by fastforce
      ultimately have "ks @ [k] = ks @ k # [] \<and> Some k \<noteq> primary
         \<and> fold body (ks @ [k]) (None, None) = (Some (r k), Some k)
         \<and> (\<forall>q\<in>set ks. Some q \<noteq> primary \<longrightarrow> r q < r k)
         \<and> (\<forall>q\<in>set []. Some q \<noteq> primary \<longrightarrow> r q \<le> r k)"
        using True by simp
      then show ?thesis by blast
    next
      case False
      with res have "fold body (ks @ [k]) (None, None) = (Some (r p), Some p)"
        by (auto simp: bk)
      moreover have "\<forall>q\<in>set (post @ [k]). Some q \<noteq> primary \<longrightarrow> r q \<le> r p"
        using after False by auto
      ultimately have "ks @ [k] = pre @ p # (post @ [k]) \<and> Some p \<noteq> primary
         \<and> fold body (ks @ [k]) (None, None) = (Some (r p), Some p)
         \<and> (\<forall>q\<in>set pre. Some q \<noteq> primary \<longrightarrow> r q < r p)
         \<and> (\<forall>q\<in>set (post @ [k]). Some q \<noteq> primary \<longrightarrow> r q \<le> r p)"
        using dec cand before by simp
      then show ?thesis by blast
    qed
  qed
qed

lemma best_alternative_cases:
  "(\<forall>k\<in>set (dict_keys wd). Some k = primary)
      \<and> best_alternative wd fd stats primary secondary tertiary = (None, None)
   \<or> (\<exists>pre p post. dict_keys wd = pre @ p # post \<and> Some p \<noteq> primary
         \<and> best_alternative wd fd stats primary secondary tertiary
             = (Some (alt_ovr wd fd stats primary secondary tertiary p), Some p)
         \<and> (\<forall>q\<in>set pre. Some q \<noteq> primary \<longrightarrow>
               alt_ovr wd fd stats primary secondary tertiary q
                 < alt_ovr wd fd stats primary secondary tertiary p)
         \<and> (\<forall>q\<in>set post. Some q \<noteq> primary \<longrightarrow>
               alt_ovr wd fd stats primary secondary tertiary q
                 \<le> alt_ovr wd fd stats primary secondary tertiary p))"
  unfolding best_alternative_def by (rule fold_loop_body)

lemma best_alternative_max:
  assumes "best_alternative wd fd stats primary secondary tertiary = (Some b, bp)"
    and "k \<in> set (dict_keys wd)" and "Some k \<noteq> primary"
  shows "alt_ovr wd fd stats primary secondary tertiary k \<le> b"
  using best_alternative_cases [of wd primary fd stats secondary tertiary] assms
  by (elim disjE conjE exE) (simp, fastforce)

lemma best_alternative_Some:
  assumes "k \<in> set (dict_keys wd)" and "Some k \<noteq> primary"
  shows "\<exists>p \<in> set (dict_keys wd). Some p \<noteq> primary \<and>
     best_alternative wd fd stats primary secondary tertiary
       = (Some (alt_ovr wd fd stats primary secondary tertiary p), Some p)"
  using best_alternative_cases [of wd primary fd stats secondary tertiary] assms
  by (elim disjE conjE exE) (blast, fastforce)

section \<open>Evaluating the evaluator on concrete inputs\<close>

lemma floor_rat_one_div [simp]:
  "\<lfloor>1 / numeral b :: rat\<rfloor> = 1 div numeral b"
  using floor_divide_of_int_eq [of 1 "numeral b", where ?'a = rat] by simp

lemma floor_rat_neg_numeral_div [simp]:
  "\<lfloor>- (numeral a / numeral b) :: rat\<rfloor> = - numeral a div numeral b"
  using floor_divide_of_int_eq [of "- numeral a" "numeral b", where ?'a = rat] by simp

lemmas eval_defs = calculate_best_alt_ovr_def best_alternative_def loop_body_def alt_ovr_def
  penalty_def base_ovr_def weighted_sum_def dict_get_def dict_keys_def py_round_def Let_def

section \<open>Properties of the evaluator\<close>

text \<open>
  Claim C1, as stated: whenever the returned delta is positive it equals the returned
  \<open>best_alt_ovr\<close> minus the current overall.  The source rounds the rating and the
  difference separately, each half-to-even: a best rating of 70.5 against an overall of 69
  returns rating 70 and delta 2.
\<close>

theorem delta_vs_rounded_gap_counterexample:
  "0 < delta_to_overall (calculate_best_alt_ovr
        [(''CB'', [(''DEF'', 100)]), (''ST'', [(''PAC'', 75), (''SHO'', 25)])] []
        [(''PAC'', 70), (''SHO'', 72), (''DEF'', 60)] (Some ''CB'') None None 69)
   \<and> delta_to_overall (calculate_best_alt_ovr
        [(''CB'', [(''DEF'', 100)]), (''ST'', [(''PAC'', 75), (''SHO'', 25)])] []
        [(''PAC'', 70), (''SHO'', 72), (''DEF'', 60)] (Some ''CB'') None None 69) = 2
   \<and> best_alt_ovr (calculate_best_alt_ovr
        [(''CB'', [(''DEF'', 100)]), (''ST'', [(''PAC'', 75), (''SHO'', 25)])] []
        [(''PAC'', 70), (''SHO'', 72), (''DEF'', 60)] (Some ''CB'') None None 69) - 69 = 1"
  by (simp add: eval_defs)

text \<open>
  Claim C1, amended: whenever the returned delta is positive, the returned rating is the
  best candidate rating rounded half-to-even and the delta is the rounded difference between
  that rating and the current overall.  The delta equals the returned rating minus the
  current overall unless the best rating lies exactly halfway between two integers and the
  current overall is odd, and it never differs from it by more than 1.
\<close>

theorem delta_is_rounded_gap:
  assumes "0 < delta_to_overall (calculate_best_alt_ovr wd fd stats primary secondary tertiary overall)"
  shows "\<exists>b p. best_alternative wd fd stats primary secondary tertiary = (Some b, p)
     \<and> of_int overall < b
     \<and> best_alt_ovr (calculate_best_alt_ovr wd fd stats primary secondary tertiary overall)
         = py_round b
     \<and> delta_to_overall (calculate_best_alt_ovr wd fd stats primary secondary tertiary overall)
         = py_round (b - of_int overall)
     \<and> (b - of_int \<lfloor>b\<rfloor> \<noteq> 1 / 2 \<or> even overall \<longrightarrow>
          delta_to_overall (calculate_best_alt_ovr wd fd stats primary secondary tertiary overall)
            = best_alt_ovr (calculate_best_alt_ovr wd fd stats primary secondary tertiary overall)
                - overall)
     \<and> \<bar>delta_to_overall (calculate_best_alt_ovr wd fd stats primary secondary tertiary overall)
          - (best_alt_ovr (calculate_best_alt_ovr wd fd stats primary secondary tertiary overall)
                - overall)\<bar> \<le> 1"
proof (cases "best_alternative wd fd stats primary secondary tertiary")
  case (Pair bo p)
  show ?thesis
  proof (cases bo)
    case None
    with Pair assms show ?thesis by (simp add: calculate_best_alt_ovr_def)
  next
    case (Some b)
    with Pair assms have gt: "of_int overall < b"
      by (simp add: calculate_best_alt_ovr_def split: if_splits)
    with Pair Some have res: "calculate_best_alt_ovr wd fd stats primary secondary tertiary overall
        = \<lparr>best_alt_position = p, best_alt_ovr = py_round b,
           delta_to_overall = py_round (b - of_int overall)\<rparr>"
      by (simp add: calculate_best_alt_ovr_def)
    have "\<bar>py_round (b - of_int overall) - (py_round b - overall)\<bar> \<le> 1"
      using py_round_shift [of b overall] py_round_shift_odd [of b overall]
      by (cases "b - of_int \<lfloor>b\<rfloor> \<noteq> 1 / 2 \<or> even overall") auto
    with Pair Some gt res py_round_shift [of b overall] show ?thesis by simp
  qed
qed

theorem delta_is_rounded_gap_witness:
  "0 < delta_to_overall (calculate_best_alt_ovr
        [(''CB'', [(''DEF'', 100)]), (''ST'', [(''PAC'', 75), (''SHO'', 25)])] []
        [(''PAC'', 72), (''SHO'', 80), (''DEF'', 60)] (Some ''CB'') None None 70)
   \<and> delta_to_overall (calculate_best_alt_ovr
        [(''CB'', [(''DEF'', 100)]), (''ST'', [(''PAC'', 75), (''SHO'', 25)])] []
        [(''PAC'', 72), (''SHO'', 80), (''DEF'', 60)] (Some ''CB'') None None 70) = 4
   \<and> best_alt_ovr (calculate_best_alt_ovr
        [(''CB'', [(''DEF'', 100)]), (''ST'', [(''PAC'', 75), (''SHO'', 25)])] []
        [(''PAC'', 72), (''SHO'', 80), (''DEF'', 60)] (Some ''CB'') None None 70) = 74"
  using delta_is_rounded_gap [of "[(''CB'', [(''DEF'', 100)]), (''ST'', [(''PAC'', 75), (''SHO'', 25)])]"
      "[]" "[(''PAC'', 72), (''SHO'', 80), (''DEF'', 60)]" "Some ''CB''" None None 70]
  by (simp add: eval_defs)

text \<open>
  Claim C2, as stated: a candidate rated strictly above the current overall makes the
  returned delta strictly positive.  A best rating of 70.25 against an overall of 70 takes
  the improvement branch and returns delta 0.
\<close>

theorem improvement_delta_positive_counterexample:
  "''ST'' \<in> set (dict_keys [(''CB'', [(''DEF'', 100)]), (''ST'', [(''PAC'', 75), (''SHO'', 25)])])
   \<and> Some ''ST'' \<noteq> Some ''CB''
   \<and> of_int 70 < alt_ovr [(''CB'', [(''DEF'', 100)]), (''ST'', [(''PAC'', 75), (''SHO'', 25)])] []
        [(''PAC'', 70), (''SHO'', 71), (''DEF'', 60)] (Some ''CB'') None None ''ST''
   \<and> calculate_best_alt_ovr
        [(''CB'', [(''DEF'', 100)]), (''ST'', [(''PAC'', 75), (''SHO'', 25)])] []
        [(''PAC'', 70), (''SHO'', 71), (''DEF'', 60)] (Some ''CB'') None None 70
       = \<lparr>best_alt_position = Some ''ST'', best_alt_ovr = 70, delta_to_overall = 0\<rparr>"
  by (simp add: eval_defs)

text \<open>
  Claim C2, amended: when some position other than the primary is rated strictly above the
  current overall, the improvement branch is taken: the result is the best candidate
  position, its rounded rating and the rounded difference to the current overall.  The
  returned delta is never negative, and it is strictly positive exactly when the best
  rating exceeds the current overall by more than one half.
\<close>

theorem improvement_branch_taken:
  assumes "pos \<in> set (dict_keys wd)" and "Some pos \<noteq> primary"
    and "of_int overall < alt_ovr wd fd stats primary secondary tertiary pos"
  shows "\<exists>p \<in> set (dict_keys wd). Some p \<noteq> primary
     \<and> alt_ovr wd fd stats primary secondary tertiary pos
         \<le> alt_ovr wd fd stats primary secondary tertiary p
     \<and> calculate_best_alt_ovr wd fd stats primary secondary tertiary overall
         = \<lparr>best_alt_position = Some p,
            best_alt_ovr = py_round (alt_ovr wd fd stats primary secondary tertiary p),
            delta_to_overall =
              py_round (alt_ovr wd fd stats primary secondary tertiary p - of_int overall)\<rparr>
     \<and> 0 \<le> delta_to_overall
              (calculate_best_alt_ovr wd fd stats primary secondary tertiary overall)
     \<and> (0 < delta_to_overall
              (calculate_best_alt_ovr wd fd stats primary secondary tertiary overall)
          \<longleftrightarrow> 1 / 2 < alt_ovr wd fd stats primary secondary tertiary p - of_int overall)"
proof -
  from best_alternative_Some [OF assms(1,2)] obtain p
    where p: "p \<in> set (dict_keys wd)" "Some p \<noteq> primary"
      and best: "best_alternative wd fd stats primary secondary tertiary
        = (Some (alt_ovr wd fd stats primary secondary tertiary p), Some p)"
    by blast
  from best_alternative_max [OF best assms(1,2)]
  have le: "alt_ovr wd fd stats primary secondary tertiary pos
      \<le> alt_ovr wd fd stats primary secondary tertiary p" .
  with assms(3) have gt: "of_int overall < alt_ovr wd fd stats primary secondary tertiary p"
    by simp
  with best have res: "calculate_best_alt_ovr wd fd stats primary secondary tertiary overall
      = \<lparr>best_alt_position = Some p,
         best_alt_ovr = py_round (alt_ovr wd fd stats primary secondary tertiary p),
         delta_to_overall =
           py_round (alt_ovr wd fd stats primary secondary tertiary p - of_int overall)\<rparr>"
    by (simp add: calculate_best_alt_ovr_def)
  from gt have "0 \<le> py_round (alt_ovr wd fd stats primary secondary tertiary p - of_int overall)"
    using py_round_lower [of 0 "alt_ovr wd fd stats primary secondary tertiary p - of_int overall"]
    by simp
  with p le res show ?thesis
    by (simp add: py_round_pos_iff)
qed

theorem improvement_branch_taken_witness:
  "''ST'' \<in> set (dict_keys [(''CB'', [(''DEF'', 100)]), (''ST'', [(''PAC'', 75), (''SHO'', 25)])])
   \<and> Some ''ST'' \<noteq> Some ''CB''
   \<and> of_int 70 < alt_ovr [(''CB'', [(''DEF'', 100)]), (''ST'', [(''PAC'', 75), (''SHO'', 25)])] []
        [(''PAC'', 72), (''SHO'', 80), (''DEF'', 60)] (Some ''CB'') None None ''ST''
   \<and> calculate_best_alt_ovr
        [(''CB'', [(''DEF'', 100)]), (''ST'', [(''PAC'', 75), (''SHO'', 25)])] []
        [(''PAC'', 72), (''SHO'', 80), (''DEF'', 60)] (Some ''CB'') None None 70
       = \<lparr>best_alt_position = Some ''ST'', best_alt_ovr = 74, delta_to_overall = 4\<rparr>"
  using improvement_branch_taken [of "''ST''"
      "[(''CB'', [(''DEF'', 100)]), (''ST'', [(''PAC'', 75), (''SHO'', 25)])]" "Some ''CB''" 70
      "[]" "[(''PAC'', 72), (''SHO'', 80), (''DEF'', 60)]" None None]
  by (simp add: eval_defs)

text \<open>
  Claim C3: when no position of the weight table differs from the primary, or the best
  candidate (one rated at least as high as every other candidate) is rated at most the
  current overall, the result is the primary position with the current overall and delta 0.
\<close>

theorem no_improvement_returns_primary:
  assumes "(\<forall>k \<in> set (dict_keys wd). Some k = primary)
     \<or> (\<exists>p \<in> set (dict_keys wd). Some p \<noteq> primary
          \<and> (\<forall>q \<in> set (dict_keys wd). Some q \<noteq> primary \<longrightarrow>
                alt_ovr wd fd stats primary secondary tertiary q
                  \<le> alt_ovr wd fd stats primary secondary tertiary p)
          \<and> alt_ovr wd fd stats primary secondary tertiary p \<le> of_int overall)"
  shows "calculate_best_alt_ovr wd fd stats primary secondary tertiary overall
     = \<lparr>best_alt_position = primary, best_alt_ovr = overall, delta_to_overall = 0\<rparr>"
proof (cases "best_alternative wd fd stats primary secondary tertiary")
  case (Pair bo bp)
  show ?thesis
  proof (cases bo)
    case None
    with Pair show ?thesis by (simp add: calculate_best_alt_ovr_def)
  next
    case (Some b)
    from best_alternative_cases [of wd primary fd stats secondary tertiary] Pair Some
    obtain k where k: "k \<in> set (dict_keys wd)" "Some k \<noteq> primary"
        "b = alt_ovr wd fd stats primary secondary tertiary k"
      by (elim disjE conjE exE) (simp, fastforce)
    with assms obtain p where "alt_ovr wd fd stats primary secondary tertiary k
          \<le> alt_ovr wd fd stats primary secondary tertiary p"
        "alt_ovr wd fd stats primary secondary tertiary p \<le> of_int overall"
      by blast
    with k have "b \<le> of_int overall" by simp
    with Pair Some show ?thesis by (simp add: calculate_best_alt_ovr_def)
  qed
qed

theorem no_improvement_returns_primary_witness:
  "(\<exists>p \<in> set (dict_keys [(''CB'', [(''DEF'', 100)]), (''ST'', [(''PAC'', 75), (''SHO'', 25)])]).
       Some p \<noteq> Some ''CB''
       \<and> alt_ovr [(''CB'', [(''DEF'', 100)]), (''ST'', [(''PAC'', 75), (''SHO'', 25)])] []
            [(''PAC'', 72), (''SHO'', 80), (''DEF'', 60)] (Some ''CB'') None None p \<le> of_int 74)
   \<and> calculate_best_alt_ovr
        [(''CB'', [(''DEF'', 100)]), (''ST'', [(''PAC'', 75), (''SHO'', 25)])] []
        [(''PAC'', 72), (''SHO'', 80), (''DEF'', 60)] (Some ''CB'') None None 74
       = \<lparr>best_alt_position = Some ''CB'', best_alt_ovr = 74, delta_to_overall = 0\<rparr>
   \<and> calculate_best_alt_ovr [(''CB'', [(''DEF'', 100)])] []
        [(''PAC'', 72), (''SHO'', 80), (''DEF'', 60)] (Some ''CB'') None None 50
       = \<lparr>best_alt_position = Some ''CB'', best_alt_ovr = 50, delta_to_overall = 0\<rparr>"
  using no_improvement_returns_primary [of
      "[(''CB'', [(''DEF'', 100)]), (''ST'', [(''PAC'', 75), (''SHO'', 25)])]" "Some ''CB''"
      "[]" "[(''PAC'', 72), (''SHO'', 80), (''DEF'', 60)]" None None 74]
    no_improvement_returns_primary [of "[(''CB'', [(''DEF'', 100)])]" "Some ''CB''"
      "[]" "[(''PAC'', 72), (''SHO'', 80), (''DEF'', 60)]" None None 50]
  by (simp add: alt_ovr_def penalty_def base_ovr_def weighted_sum_def dict_get_def dict_keys_def)

text \<open>
  Claim C4: whenever the returned delta is positive, the returned rating is not below the
  player's current overall.
\<close>

theorem positive_delta_not_below_overall:
  assumes "0 < delta_to_overall (calculate_best_alt_ovr wd fd stats primary secondary tertiary overall)"
  shows "overall \<le> best_alt_ovr (calculate_best_alt_ovr wd fd stats primary secondary tertiary overall)"
proof (cases "best_alternative wd fd stats primary secondary tertiary")
  case (Pair bo bp)
  show ?thesis
  proof (cases bo)
    case None
    with Pair show ?thesis by (simp add: calculate_best_alt_ovr_def)
  next
    case (Some b)
    show ?thesis
    proof (cases "b \<le> of_int overall")
      case True
      with Pair Some show ?thesis by (simp add: calculate_best_alt_ovr_def)
    next
      case False
      then have "overall \<le> py_round b" by (intro py_round_lower) simp
      with Pair Some False show ?thesis by (simp add: calculate_best_alt_ovr_def)
    qed
  qed
qed

theorem positive_delta_not_below_overall_witness:
  "0 < delta_to_overall (calculate_best_alt_ovr
        [(''CB'', [(''DEF'', 100)]), (''ST'', [(''PAC'', 75), (''SHO'', 25)])] []
        [(''PAC'', 72), (''SHO'', 80), (''DEF'', 60)] (Some ''CB'') None None 70)
   \<and> (70 :: int) \<le> best_alt_ovr (calculate_best_alt_ovr
        [(''CB'', [(''DEF'', 100)]), (''ST'', [(''PAC'', 75), (''SHO'', 25)])] []
        [(''PAC'', 72), (''SHO'', 80), (''DEF'', 60)] (Some ''CB'') None None 70)"
  using positive_delta_not_below_overall [of
      "[(''CB'', [(''DEF'', 100)]), (''ST'', [(''PAC'', 75), (''SHO'', 25)])]"
      "[]" "[(''PAC'', 72), (''SHO'', 80), (''DEF'', 60)]" "Some ''CB''" None None 70]
  by (simp add: eval_defs)

text \<open>
  Claim C5: the penalty applied to a position is 0 when it is the primary; otherwise \<open>-1\<close>
  when it is the secondary or the tertiary; otherwise the familiarity table's value for
  (primary, position), 0 when the pair is absent.  The rating of the position is the base
  rating plus this penalty, not below 0.
\<close>

theorem penalty_priority:
  "(Some pos = primary \<longrightarrow> penalty fd primary secondary tertiary pos = 0)
   \<and> (Some pos \<noteq> primary \<and> (Some pos = secondary \<or> Some pos = tertiary) \<longrightarrow>
        penalty fd primary secondary tertiary pos = - 1)
   \<and> (Some pos \<noteq> primary \<and> Some pos \<noteq> secondary \<and> Some pos \<noteq> tertiary \<longrightarrow>
        penalty fd primary secondary tertiary pos
          = (case map_of fd (primary, pos) of None \<Rightarrow> 0 | Some v \<Rightarrow> v))
   \<and> alt_ovr wd fd stats primary secondary tertiary pos
        = max 0 (base_ovr wd stats pos + penalty fd primary secondary tertiary pos)"
  by (simp add: penalty_def alt_ovr_def dict_get_def)

theorem penalty_priority_witness:
  "penalty [((Some ''CB'', ''ST''), - 20), ((Some ''CB'', ''CB''), - 5), ((Some ''CB'', ''CDM''), - 8)]
      (Some ''CB'') (Some ''CDM'') None ''CB'' = 0
   \<and> penalty [((Some ''CB'', ''ST''), - 20), ((Some ''CB'', ''CB''), - 5), ((Some ''CB'', ''CDM''), - 8)]
      (Some ''CB'') (Some ''CDM'') None ''CDM'' = - 1
   \<and> penalty [((Some ''CB'', ''ST''), - 20), ((Some ''CB'', ''CB''), - 5), ((Some ''CB'', ''CDM''), - 8)]
      (Some ''CB'') (Some ''CDM'') None ''ST'' = - 20
   \<and> penalty [((Some ''CB'', ''ST''), - 20), ((Some ''CB'', ''CB''), - 5), ((Some ''CB'', ''CDM''), - 8)]
      (Some ''CB'') (Some ''CDM'') None ''GK'' = 0"
  using
    penalty_priority [of "''CB''" "Some ''CB''"
      "[((Some ''CB'', ''ST''), - 20), ((Some ''CB'', ''CB''), - 5), ((Some ''CB'', ''CDM''), - 8)]"
      "Some ''CDM''" None]
    penalty_priority [of "''CDM''" "Some ''CB''"
      "[((Some ''CB'', ''ST''), - 20), ((Some ''CB'', ''CB''), - 5), ((Some ''CB'', ''CDM''), - 8)]"
      "Some ''CDM''" None]
    penalty_priority [of "''ST''" "Some ''CB''"
      "[((Some ''CB'', ''ST''), - 20), ((Some ''CB'', ''CB''), - 5), ((Some ''CB'', ''CDM''), - 8)]"
      "Some ''CDM''" None]
    penalty_priority [of "''GK''" "Some ''CB''"
      "[((Some ''CB'', ''ST''), - 20), ((Some ''CB'', ''CB''), - 5), ((Some ''CB'', ''CDM''), - 8)]"
      "Some ''CDM''" None]
  by simp

text \<open>
  Claim C6: the loop tracks no position when every key is the primary; otherwise it tracks
  a position \<open>p\<close> other than the primary whose rating is at least that of every other
  candidate, and strictly above that of every candidate iterated before it (the first of
  equally rated candidates is kept).  This is the position returned whenever its rating
  exceeds the current overall.
\<close>

theorem best_candidate_first_maximum:
  "(\<forall>k \<in> set (dict_keys wd). Some k = primary)
      \<and> best_alternative wd fd stats primary secondary tertiary = (None, None)
   \<or> (\<exists>pre p post. dict_keys wd = pre @ p # post \<and> Some p \<noteq> primary
         \<and> best_alternative wd fd stats primary secondary tertiary
             = (Some (alt_ovr wd fd stats primary secondary tertiary p), Some p)
         \<and> (\<forall>q \<in> set pre. Some q \<noteq> primary \<longrightarrow>
               alt_ovr wd fd stats primary secondary tertiary q
                 < alt_ovr wd fd stats primary secondary tertiary p)
         \<and> (\<forall>q \<in> set post. Some q \<noteq> primary \<longrightarrow>
               alt_ovr wd fd stats primary secondary tertiary q
                 \<le> alt_ovr wd fd stats primary secondary tertiary p)
         \<and> (of_int overall < alt_ovr wd fd stats primary secondary tertiary p \<longrightarrow>
               best_alt_position
                 (calculate_best_alt_ovr wd fd stats primary secondary tertiary overall)
               = Some p))"
proof -
  from best_alternative_cases [of wd primary fd stats secondary tertiary]
  show ?thesis
  proof (elim disjE conjE exE)
    assume "\<forall>k \<in> set (dict_keys wd). Some k = primary"
      "best_alternative wd fd stats primary secondary tertiary = (None, None)"
    then show ?thesis by simp
  next
    fix pre p post
    assume *: "dict_keys wd = pre @ p # post" "Some p \<noteq> primary"
      "best_alternative wd fd stats primary secondary tertiary
         = (Some (alt_ovr wd fd stats primary secondary tertiary p), Some p)"
      "\<forall>q \<in> set pre. Some q \<noteq> primary \<longrightarrow>
         alt_ovr wd fd stats primary secondary tertiary q
           < alt_ovr wd fd stats primary secondary tertiary p"
      "\<forall>q \<in> set post. Some q \<noteq> primary \<longrightarrow>
         alt_ovr wd fd stats primary secondary tertiary q
           \<le> alt_ovr wd fd stats primary secondary tertiary p"
    from *(3) have "of_int overall < alt_ovr wd fd stats primary secondary tertiary p \<longrightarrow>
        best_alt_position (calculate_best_alt_ovr wd fd stats primary secondary tertiary overall)
          = Some p"
      by (simp add: calculate_best_alt_ovr_def)
    with * show ?thesis by blast
  qed
qed

theorem best_candidate_first_maximum_witness:
  "best_alternative
      [(''CB'', [(''DEF'', 100)]), (''CF'', [(''PAC'', 50), (''SHO'', 50)]),
       (''RW'', [(''PAC'', 100)]), (''ST'', [(''PAC'', 75), (''SHO'', 25)])] []
      [(''PAC'', 72), (''SHO'', 72), (''DEF'', 90)] (Some ''CB'') None None
     = (Some 72, Some ''CF'')
   \<and> best_alt_position (calculate_best_alt_ovr
      [(''CB'', [(''DEF'', 100)]), (''CF'', [(''PAC'', 50), (''SHO'', 50)]),
       (''RW'', [(''PAC'', 100)]), (''ST'', [(''PAC'', 75), (''SHO'', 25)])] []
      [(''PAC'', 72), (''SHO'', 72), (''DEF'', 90)] (Some ''CB'') None None 70) = Some ''CF''"
  using best_candidate_first_maximum [of
      "[(''CB'', [(''DEF'', 100)]), (''CF'', [(''PAC'', 50), (''SHO'', 50)]),
       (''RW'', [(''PAC'', 100)]), (''ST'', [(''PAC'', 75), (''SHO'', 25)])]" "Some ''CB''"
      "[]" "[(''PAC'', 72), (''SHO'', 72), (''DEF'', 90)]" None None 70]
  by (simp add: eval_defs)


section \<open>Properties of the floor-price cache\<close>

lemma cache_hit_stored:
  "cache_hit now (Some [(''price'', price), (''timestamp'', JNum ts)])
     = (if now - ts < 3600 then Inr (Some price) else Inr None)"
  by (simp add: cache_hit_def dict_get_def py_number_def CACHE_EXPIRY_SECONDS_def)

lemma store_price_lookup:
  "floor_price_cache (store_price key price ts st) key
     = Some [(''price'', price), (''timestamp'', JNum ts)]"
  by (simp add: store_price_def save_floor_cache_def)

lemma store_price_requests:
  "requests_sent (store_price key price ts st) = requests_sent st"
  by (simp add: store_price_def save_floor_cache_def)

lemma get_floor_price_miss:
  assumes "cache_hit now (floor_price_cache st (generate_floor_key digest a ov p)) = Inr None"
  shows "get_floor_price digest remote now st (Some a) (Some ov) (Some p)
     = (case listed_price (remote (floor_url a ov p)) of
          Some price \<Rightarrow> (Inr price, store_price (generate_floor_key digest a ov p) price now
                          (st\<lparr>requests_sent := requests_sent st @ [floor_url a ov p]\<rparr>))
        | None \<Rightarrow> (Inr JNull, store_price (generate_floor_key digest a ov p) JNull now
                          (st\<lparr>requests_sent := requests_sent st @ [floor_url a ov p]\<rparr>)))"
  using assms by (simp add: get_floor_price_def Let_def)

lemma get_floor_price_hit:
  assumes "cache_hit now (floor_price_cache st (generate_floor_key digest a ov p)) = Inr (Some price)"
  shows "get_floor_price digest remote now st (Some a) (Some ov) (Some p) = (Inr price, st)"
  using assms by (simp add: get_floor_price_def Let_def)


lemma get_floor_price_requests_miss:
  assumes "cache_hit now (floor_price_cache st (generate_floor_key digest a ov p)) = Inr None"
  shows "requests_sent (snd (get_floor_price digest remote now st (Some a) (Some ov) (Some p)))
     = requests_sent st @ [floor_url a ov p]"
  using assms
  by (simp add: get_floor_price_miss store_price_requests split: option.split)





text \<open>
  Claim C7: after an entry (price, timestamp) is written for a triple, a get less than 3600
  seconds after the stored timestamp returns the stored price and leaves the state as it
  is, so no request is sent; a get 3600 seconds or more after it sends exactly one request.
  The write is the one \<open>get_floor_price\<close> itself performs: a get that missed and found a
  listed price is followed, inside the window, by a get that returns the same price without
  a request.
\<close>

theorem cache_round_trip:
  "(now - ts < 3600 \<longrightarrow>
      get_floor_price digest remote now
          (store_price (generate_floor_key digest a ov p) price ts st) (Some a) (Some ov) (Some p)
        = (Inr price, store_price (generate_floor_key digest a ov p) price ts st))
   \<and> (3600 \<le> now - ts \<longrightarrow>
      requests_sent (snd (get_floor_price digest remote now
          (store_price (generate_floor_key digest a ov p) price ts st) (Some a) (Some ov) (Some p)))
        = requests_sent st @ [floor_url a ov p])
   \<and> (cache_hit ts (floor_price_cache st (generate_floor_key digest a ov p)) = Inr None
        \<and> listed_price (remote0 (floor_url a ov p)) = Some price \<and> now - ts < 3600 \<longrightarrow>
      fst (get_floor_price digest remote0 ts st (Some a) (Some ov) (Some p)) = Inr price
      \<and> get_floor_price digest remote now
          (snd (get_floor_price digest remote0 ts st (Some a) (Some ov) (Some p)))
          (Some a) (Some ov) (Some p)
        = (Inr price, snd (get_floor_price digest remote0 ts st (Some a) (Some ov) (Some p))))"
proof (intro conjI impI)
  assume "now - ts < 3600"
  then show "get_floor_price digest remote now
          (store_price (generate_floor_key digest a ov p) price ts st) (Some a) (Some ov) (Some p)
        = (Inr price, store_price (generate_floor_key digest a ov p) price ts st)"
    by (intro get_floor_price_hit) (simp add: store_price_lookup cache_hit_stored)
next
  assume "3600 \<le> now - ts"
  then have "cache_hit now (floor_price_cache
        (store_price (generate_floor_key digest a ov p) price ts st)
        (generate_floor_key digest a ov p)) = Inr None"
    by (simp add: store_price_lookup cache_hit_stored)
  from get_floor_price_requests_miss [OF this]
  show "requests_sent (snd (get_floor_price digest remote now
          (store_price (generate_floor_key digest a ov p) price ts st) (Some a) (Some ov) (Some p)))
        = requests_sent st @ [floor_url a ov p]"
    by (simp add: store_price_requests)
next
  assume h: "cache_hit ts (floor_price_cache st (generate_floor_key digest a ov p)) = Inr None
        \<and> listed_price (remote0 (floor_url a ov p)) = Some price \<and> now - ts < 3600"
  then have first: "get_floor_price digest remote0 ts st (Some a) (Some ov) (Some p)
      = (Inr price, store_price (generate_floor_key digest a ov p) price ts
           (st\<lparr>requests_sent := requests_sent st @ [floor_url a ov p]\<rparr>))"
    by (simp add: get_floor_price_miss)
  then show "fst (get_floor_price digest remote0 ts st (Some a) (Some ov) (Some p)) = Inr price"
    by simp
  from h have "cache_hit now (floor_price_cache
        (store_price (generate_floor_key digest a ov p) price ts
           (st\<lparr>requests_sent := requests_sent st @ [floor_url a ov p]\<rparr>))
        (generate_floor_key digest a ov p)) = Inr (Some price)"
    by (simp add: store_price_lookup cache_hit_stored)
  from get_floor_price_hit [OF this] first
  show "get_floor_price digest remote now
          (snd (get_floor_price digest remote0 ts st (Some a) (Some ov) (Some p)))
          (Some a) (Some ov) (Some p)
        = (Inr price, snd (get_floor_price digest remote0 ts st (Some a) (Some ov) (Some p)))"
    by simp
qed

theorem cache_round_trip_witness:
  "(1000 :: rat) - 500 < 3600
   \<and> get_floor_price (\<lambda>s. s) (\<lambda>u. RequestException) 1000
        (store_price (generate_floor_key (\<lambda>s. s) 24 66 ''ST'') (JNum 5) 500
           \<lparr>floor_price_cache = Map.empty, cache_file = Map.empty, requests_sent = []\<rparr>)
        (Some 24) (Some 66) (Some ''ST'')
      = (Inr (JNum 5), store_price (generate_floor_key (\<lambda>s. s) 24 66 ''ST'') (JNum 5) 500
           \<lparr>floor_price_cache = Map.empty, cache_file = Map.empty, requests_sent = []\<rparr>)
   \<and> (3600 :: rat) \<le> 4100 - 500
   \<and> requests_sent (snd (get_floor_price (\<lambda>s. s) (\<lambda>u. RequestException) 4100
        (store_price (generate_floor_key (\<lambda>s. s) 24 66 ''ST'') (JNum 5) 500
           \<lparr>floor_price_cache = Map.empty, cache_file = Map.empty, requests_sent = []\<rparr>)
        (Some 24) (Some 66) (Some ''ST'')))
      = [floor_url 24 66 ''ST'']
   \<and> listed_price (Response 200 (Some (JList [JDict [(''price'', JNum 5)]]))) = Some (JNum 5)
   \<and> get_floor_price (\<lambda>s. s) (\<lambda>u. RequestException) 1000
        (snd (get_floor_price (\<lambda>s. s)
               (\<lambda>u. Response 200 (Some (JList [JDict [(''price'', JNum 5)]]))) 500
               \<lparr>floor_price_cache = Map.empty, cache_file = Map.empty, requests_sent = []\<rparr>
               (Some 24) (Some 66) (Some ''ST'')))
        (Some 24) (Some 66) (Some ''ST'')
      = (Inr (JNum 5),
         snd (get_floor_price (\<lambda>s. s)
               (\<lambda>u. Response 200 (Some (JList [JDict [(''price'', JNum 5)]]))) 500
               \<lparr>floor_price_cache = Map.empty, cache_file = Map.empty, requests_sent = []\<rparr>
               (Some 24) (Some 66) (Some ''ST'')))"
  using
    cache_round_trip [where now = 1000 and ts = 500 and digest = "\<lambda>s. s"
      and remote = "\<lambda>u. RequestException" and a = 24 and ov = 66 and p = "''ST''"
      and price = "JNum 5"
      and remote0 = "\<lambda>u. Response 200 (Some (JList [JDict [(''price'', JNum 5)]]))"
      and st = "\<lparr>floor_price_cache = Map.empty, cache_file = Map.empty, requests_sent = []\<rparr>"]
    cache_round_trip [where now = 4100 and ts = 500 and digest = "\<lambda>s. s"
      and remote = "\<lambda>u. RequestException" and a = 24 and ov = 66 and p = "''ST''"
      and price = "JNum 5"
      and remote0 = "\<lambda>u. Response 200 (Some (JList [JDict [(''price'', JNum 5)]]))"
      and st = "\<lparr>floor_price_cache = Map.empty, cache_file = Map.empty, requests_sent = []\<rparr>"]
  by (simp add: cache_hit_def listed_price_def price_in_def price_of_def dict_keys_def)






section \<open>Properties of the preload\<close>

lemma preload_loop_spec:
  assumes "preload_loop fetch ident remote n i (acc, cursor, asked) = (err, acc', cursor', asked')"
  shows "acc' = acc @ concat (takeWhile (\<lambda>page. page \<noteq> [])
            (map (\<lambda>j. case fetch (remote j) of Inl e \<Rightarrow> [] | Inr b \<Rightarrow> b) [i..<i + n]))
     \<and> length asked' = length asked + min n (Suc (length (takeWhile (\<lambda>page. page \<noteq> [])
            (map (\<lambda>j. case fetch (remote j) of Inl e \<Rightarrow> [] | Inr b \<Rightarrow> b) [i..<i + n]))))"
  using assms
proof (induction n arbitrary: i acc cursor asked)
  case 0
  then show ?case by simp
next
  case (Suc n)
  have upt: "[i..<Suc (i + n)] = i # [Suc i..<Suc (i + n)]"
    by (simp add: upt_conv_Cons)
  show ?case
  proof (cases "fetch (remote i)")
    case (Inl e)
    with Suc.prems show ?thesis by (auto simp: upt simp del: upt_Suc)
  next
    case (Inr new_batch)
    show ?thesis
    proof (cases "new_batch = []")
      case True
      with Inr Suc.prems show ?thesis by (auto simp: upt simp del: upt_Suc)
    next
      case False
      with Inr Suc.prems have "preload_loop fetch ident remote n (Suc i)
          (acc @ new_batch, Some (ident (last new_batch)), asked @ [cursor])
        = (err, acc', cursor', asked')"
        by simp
      from Suc.IH [OF this] Inr False show ?thesis
        by (simp add: upt del: upt_Suc)
    qed
  qed
qed

lemma load_listings_records:
  "(case load_listings out of Inl e \<Rightarrow> [] | Inr b \<Rightarrow> b) = page_records out"
  by (simp add: load_listings_def page_records_def split: page_outcome.split)

lemma fetch_scouting_list_records:
  "(case fetch_scouting_list out of Inl e \<Rightarrow> [] | Inr b \<Rightarrow> b) = page_records out"
  by (simp add: fetch_scouting_list_def page_records_def split: page_outcome.split)

text \<open>
  Claim C9: started on an empty collection, the preload sends at most 6 requests in the
  marketplace page and at most 3 in the scouting page: one for every page before the first
  empty or failed one, and one for that page unless the bound is reached first.  The
  collection afterwards is the concatenation, in order, of the pages before that stop, all
  of them non-empty.
\<close>

theorem preload_bounded_concat:
  "(listings st = [] \<longrightarrow>
      listings (snd (preload_listings remote st)) = concat (fetched_pages remote 6)
      \<and> length (listing_requests (snd (preload_listings remote st)))
          = length (listing_requests st) + min 6 (Suc (length (fetched_pages remote 6)))
      \<and> length (listing_requests (snd (preload_listings remote st)))
          \<le> length (listing_requests st) + 6)
   \<and> (scouting_players ss = [] \<longrightarrow>
      scouting_players (snd (preload_scouting sremote ss)) = concat (fetched_pages sremote 3)
      \<and> length (scouting_requests (snd (preload_scouting sremote ss)))
          = length (scouting_requests ss) + min 3 (Suc (length (fetched_pages sremote 3)))
      \<and> length (scouting_requests (snd (preload_scouting sremote ss)))
          \<le> length (scouting_requests ss) + 3)
   \<and> [] \<notin> set (fetched_pages remote 6) \<and> [] \<notin> set (fetched_pages sremote 3)
   \<and> (length (fetched_pages remote 6) < 6 \<longrightarrow>
        page_records (remote (length (fetched_pages remote 6))) = [])
   \<and> (length (fetched_pages sremote 3) < 3 \<longrightarrow>
        page_records (sremote (length (fetched_pages sremote 3))) = [])"
proof (intro conjI impI)
  assume empty: "listings st = []"
  obtain err acc cursor asked where loop:
    "preload_loop load_listings listingResourceId remote 6 0 (listings st, None, listing_requests st)
       = (err, acc, cursor, asked)"
    by (metis prod_cases4)
  from preload_loop_spec [OF loop] empty
  have acc: "acc = concat (fetched_pages remote 6)"
    and asked: "length asked = length (listing_requests st) + min 6 (Suc (length (fetched_pages remote 6)))"
    by (simp_all add: load_listings_records fetched_pages_def)
  from loop empty have st': "listings (snd (preload_listings remote st)) = acc"
      "listing_requests (snd (preload_listings remote st)) = asked"
    by (cases err; simp add: preload_listings_def)+
  from st' acc show "listings (snd (preload_listings remote st)) = concat (fetched_pages remote 6)"
    by simp
  from st' asked show "length (listing_requests (snd (preload_listings remote st)))
      = length (listing_requests st) + min 6 (Suc (length (fetched_pages remote 6)))"
    by simp
  then show "length (listing_requests (snd (preload_listings remote st)))
      \<le> length (listing_requests st) + 6"
    by simp
next
  assume empty: "scouting_players ss = []"
  obtain err acc cursor asked where loop:
    "preload_loop fetch_scouting_list player_id sremote 3 0
        (scouting_players ss, scouting_last_id ss, scouting_requests ss)
       = (err, acc, cursor, asked)"
    by (metis prod_cases4)
  from preload_loop_spec [OF loop] empty
  have acc: "acc = concat (fetched_pages sremote 3)"
    and asked: "length asked = length (scouting_requests ss) + min 3 (Suc (length (fetched_pages sremote 3)))"
    by (simp_all add: fetch_scouting_list_records fetched_pages_def)
  from loop empty have st': "scouting_players (snd (preload_scouting sremote ss)) = acc"
      "scouting_requests (snd (preload_scouting sremote ss)) = asked"
    by (simp_all add: preload_scouting_def)
  from st' acc show "scouting_players (snd (preload_scouting sremote ss)) = concat (fetched_pages sremote 3)"
    by simp
  from st' asked show "length (scouting_requests (snd (preload_scouting sremote ss)))
      = length (scouting_requests ss) + min 3 (Suc (length (fetched_pages sremote 3)))"
    by simp
  then show "length (scouting_requests (snd (preload_scouting sremote ss)))
      \<le> length (scouting_requests ss) + 3"
    by simp
next
  show "[] \<notin> set (fetched_pages remote 6)"
    unfolding fetched_pages_def by (auto dest: set_takeWhileD)
  show "[] \<notin> set (fetched_pages sremote 3)"
    unfolding fetched_pages_def by (auto dest: set_takeWhileD)
next
  assume "length (fetched_pages remote 6) < 6"
  then show "page_records (remote (length (fetched_pages remote 6))) = []"
    unfolding fetched_pages_def
    using nth_length_takeWhile [of "\<lambda>page. page \<noteq> []" "map (\<lambda>i. page_records (remote i)) [0..<6]"]
    by simp
next
  assume "length (fetched_pages sremote 3) < 3"
  then show "page_records (sremote (length (fetched_pages sremote 3))) = []"
    unfolding fetched_pages_def
    using nth_length_takeWhile [of "\<lambda>page. page \<noteq> []" "map (\<lambda>i. page_records (sremote i)) [0..<3]"]
    by simp
qed

theorem preload_bounded_concat_witness:
  "listings \<lparr>listings = [], last_id = None, listing_requests = []\<rparr> = []
   \<and> listings (snd (preload_listings
        (\<lambda>i. if i = 0 then PageResponse 200 [\<lparr>listingResourceId = 11\<rparr>, \<lparr>listingResourceId = 12\<rparr>]
              else if i = 1 then PageResponse 200 [\<lparr>listingResourceId = 13\<rparr>]
              else if i = 2 then PageResponse 500 [\<lparr>listingResourceId = 14\<rparr>]
              else PageResponse 200 [\<lparr>listingResourceId = 15\<rparr>])
        \<lparr>listings = [], last_id = None, listing_requests = []\<rparr>))
      = [\<lparr>listingResourceId = 11\<rparr>, \<lparr>listingResourceId = 12\<rparr>, \<lparr>listingResourceId = 13\<rparr>]
   \<and> length (listing_requests (snd (preload_listings
        (\<lambda>i. if i = 0 then PageResponse 200 [\<lparr>listingResourceId = 11\<rparr>, \<lparr>listingResourceId = 12\<rparr>]
              else if i = 1 then PageResponse 200 [\<lparr>listingResourceId = 13\<rparr>]
              else if i = 2 then PageResponse 500 [\<lparr>listingResourceId = 14\<rparr>]
              else PageResponse 200 [\<lparr>listingResourceId = 15\<rparr>])
        \<lparr>listings = [], last_id = None, listing_requests = []\<rparr>))) = 3
   \<and> scouting_players (snd (preload_scouting
        (\<lambda>i. if i = 0 then PageResponse 200 [\<lparr>player_id = 7\<rparr>] else PageException)
        \<lparr>scouting_players = [], scouting_last_id = None, scouting_requests = []\<rparr>))
      = [\<lparr>player_id = 7\<rparr>]
   \<and> length (scouting_requests (snd (preload_scouting
        (\<lambda>i. if i = 0 then PageResponse 200 [\<lparr>player_id = 7\<rparr>] else PageException)
        \<lparr>scouting_players = [], scouting_last_id = None, scouting_requests = []\<rparr>))) = 2"
  using preload_bounded_concat [where st = "\<lparr>listings = [], last_id = None, listing_requests = []\<rparr>"
      and remote = "\<lambda>i. if i = 0 then PageResponse 200 [\<lparr>listingResourceId = 11\<rparr>, \<lparr>listingResourceId = 12\<rparr>]
              else if i = 1 then PageResponse 200 [\<lparr>listingResourceId = 13\<rparr>]
              else if i = 2 then PageResponse 500 [\<lparr>listingResourceId = 14\<rparr>]
              else PageResponse 200 [\<lparr>listingResourceId = 15\<rparr>]"
      and ss = "\<lparr>scouting_players = [], scouting_last_id = None, scouting_requests = []\<rparr>"
      and sremote = "\<lambda>i. if i = 0 then PageResponse 200 [\<lparr>player_id = 7\<rparr>] else PageException"]
  by (simp add: fetched_pages_def page_records_def upt_rec)


end
